theory Spec2Isabelle
  imports Main
begin

section \<open>JavaScript values and string helpers\<close>

text \<open>
  The value \<^verbatim>\<open>XMLParser.parse\<close> hands back is a plain JavaScript object. Its
  properties are kept as an association list in enumeration order (the order of
  \<^verbatim>\<open>Object.keys\<close> and of \<^verbatim>\<open>for ... in\<close>); a JavaScript object never holds a
  key twice. A JavaScript string is modelled by the list of its UTF-8 bytes; the payload
  of a number is never inspected by the code modelled here, only its \<^verbatim>\<open>typeof\<close>
  and whether it is zero.
\<close>

datatype jsval =
    JUndefined
  | JNull
  | JBool bool
  | JNumber int
  | JString string
  | JArray "jsval list"
  | JObject "(string \<times> jsval) list"

fun typeof :: "jsval \<Rightarrow> string" where
  "typeof JUndefined = ''undefined''"
| "typeof JNull = ''object''"
| "typeof (JBool _) = ''boolean''"
| "typeof (JNumber _) = ''number''"
| "typeof (JString _) = ''string''"
| "typeof (JArray _) = ''object''"
| "typeof (JObject _) = ''object''"

definition digit :: "nat \<Rightarrow> char" where
  "digit d = char_of (of_char (CHR ''0'') + d)"

fun showNat :: "nat \<Rightarrow> string" where
  "showNat n = (if n < 10 then [digit n] else showNat (n div 10) @ [digit (n mod 10)])"

declare showNat.simps [simp del]

text \<open>
  The properties a \<^verbatim>\<open>for (const key in obj)\<close> loop visits, each with \<^verbatim>\<open>obj[key]\<close>:
  the own properties of an object, the indices \<^verbatim>\<open>"0"\<close>, \<^verbatim>\<open>"1"\<close>, ... of an array,
  nothing for \<^verbatim>\<open>null\<close>. \<^verbatim>\<open>checkTags\<close> is only ever called on a value whose
  \<^verbatim>\<open>typeof\<close> is \<^verbatim>\<open>"object"\<close>.
\<close>

fun forIn :: "jsval \<Rightarrow> (string \<times> jsval) list" where
  "forIn (JObject kvs) = kvs"
| "forIn (JArray xs) = zip (map showNat [0..<length xs]) xs"
| "forIn _ = []"

text \<open>\<^verbatim>\<open>s.startsWith(p)\<close> and \<^verbatim>\<open>s.endsWith(p)\<close>.\<close>

definition startsWith :: "string \<Rightarrow> string \<Rightarrow> bool" where
  "startsWith s p = (take (length p) s = p)"

definition endsWith :: "string \<Rightarrow> string \<Rightarrow> bool" where
  "endsWith s p = (length p \<le> length s \<and> drop (length s - length p) s = p)"

text \<open>
  \<^verbatim>\<open>key.replace(/^.*:/, "")\<close>: the pattern is anchored at the start of the string,
  \<^verbatim>\<open>.\<close> matches every character but a line terminator, and \<^verbatim>\<open>*\<close> is greedy. So
  the match runs from the start to the last colon of the first line, and is removed;
  with no colon on the first line nothing is replaced. The line terminators are line
  feed, carriage return, and U+2028 and U+2029, which are the bytes \<^verbatim>\<open>E2 80 A8\<close> and
  \<^verbatim>\<open>E2 80 A9\<close> in UTF-8.
\<close>

fun firstLine :: "string \<Rightarrow> string" where
  "firstLine [] = []"
| "firstLine (c # cs) =
     (if c = CHR 0x0A \<or> c = CHR 0x0D then []
      else if c = CHR 0xE2 \<and> (take 2 cs = [CHR 0x80, CHR 0xA8] \<or> take 2 cs = [CHR 0x80, CHR 0xA9])
      then []
      else c # firstLine cs)"

definition stripNamespace :: "string \<Rightarrow> string" where
  "stripNamespace key =
     (let line = firstLine key in
      if CHR '':'' \<in> set line
      then rev (takeWhile (\<lambda>c. c \<noteq> CHR '':'') (rev line)) @ drop (length line) key
      else key)"

text \<open>A string between single quotes, as the messages of the code embed tag names.\<close>

definition quoted :: "string \<Rightarrow> string" where
  "quoted s = [CHR 0x27] @ s @ [CHR 0x27]"

text \<open>\<^verbatim>\<open>xs.join(sep)\<close> on an array of strings.\<close>

fun join :: "string \<Rightarrow> string list \<Rightarrow> string" where
  "join sep [] = []"
| "join sep [x] = x"
| "join sep (x # y # ys) = x @ sep @ join sep (y # ys)"

section \<open>The structural validator\<close>

text \<open>
  \<^verbatim>\<open>XMLValidator.validate\<close> returns \<^verbatim>\<open>true\<close> or an object \<^verbatim>\<open>{ err: { msg, ... } }\<close>;
  the code reads \<^verbatim>\<open>err?.msg\<close>, which is \<^verbatim>\<open>undefined\<close> (\<open>None\<close>) when absent.
  \<^verbatim>\<open>parser.parse\<close> returns the root object or throws an error with a message
  (\<open>Inl\<close>). Both belong to the XML library, which is not part of the repository: they
  are parameters of the model, as is the tag vocabulary \<^verbatim>\<open>SVG_TAGS\<close> of
  \<^verbatim>\<open>svg_standards\<close>.
\<close>

datatype validation_result = VTrue | ValidationError "string option"

record xml_lib =
  XMLValidator_validate :: "string \<Rightarrow> validation_result"
  XMLParser_parse :: "string \<Rightarrow> string \<Rightarrow> string + (string \<times> jsval) list"

record verdict =
  valid :: bool
  errors :: "string list"
  warnings :: "string list"

text \<open>\<^verbatim>\<open>x || d\<close> on an optional string: \<^verbatim>\<open>undefined\<close> and \<^verbatim>\<open>""\<close> are falsy.\<close>

fun orElse :: "string option \<Rightarrow> string \<Rightarrow> string" where
  "orElse None d = d"
| "orElse (Some s) d = (if s = [] then d else s)"

text \<open>
  \<^verbatim>\<open>checkTags\<close>: for every property whose value has \<^verbatim>\<open>typeof\<close> \<^verbatim>\<open>"object"\<close>, push a
  warning when the stripped key is not \<^verbatim>\<open>svg\<close>, not in \<^verbatim>\<open>SVG_TAGS\<close>, the key does
  not start with \<^verbatim>\<open>@_\<close> and is not \<^verbatim>\<open>#text\<close>; then recurse into the value. The
  warnings are returned in the order in which the loop pushes them.
\<close>

definition nonStandard :: "string set \<Rightarrow> string \<Rightarrow> bool" where
  "nonStandard SVG_TAGS key =
     (let tagName = stripNamespace key in
      tagName \<noteq> ''svg'' \<and> tagName \<notin> SVG_TAGS \<and> \<not> startsWith key ''@_'' \<and> key \<noteq> ''#text'')"

definition tagWarning :: "string \<Rightarrow> string" where
  "tagWarning key = ''Non-standard SVG tag found: '' @ quoted (stripNamespace key)"

lemma forIn_size: "(k, v) \<in> set (forIn obj) \<Longrightarrow> size v < size obj"
proof (cases obj)
  case (JArray xs)
  assume "(k, v) \<in> set (forIn obj)"
  with JArray have "v \<in> set xs" by (auto dest: set_zip_rightD)
  then have "size v \<le> size_list size xs" by (simp add: size_list_estimation')
  with JArray show ?thesis by simp
next
  case (JObject kvs)
  assume "(k, v) \<in> set (forIn obj)"
  with JObject have m: "(k, v) \<in> set kvs" by simp
  have "size_prod (\<lambda>_. 0) size (k, v) \<le> size_list (size_prod (\<lambda>_. 0) size) kvs"
    using m by (simp add: size_list_estimation')
  with JObject show ?thesis by simp
qed simp_all

function checkTags :: "string set \<Rightarrow> jsval \<Rightarrow> string list" where
  "checkTags SVG_TAGS obj =
     concat (map (\<lambda>(key, v).
       if typeof v = ''object''
       then (if nonStandard SVG_TAGS key then [tagWarning key] else []) @ checkTags SVG_TAGS v
       else []) (forIn obj))"
  by pat_completeness auto
termination
  by (relation "measure (\<lambda>(T, obj). size obj)") (auto dest: forIn_size)

declare checkTags.simps [simp del]

text \<open>
  \<^verbatim>\<open>index.ts\<close> holds two variants of the server. Their handlers agree; the
  \<^verbatim>\<open>validateSvgContent\<close> of the first stops after the root check and never warns, that
  of the second (the default export \<^verbatim>\<open>createServer\<close>) adds the tag walk. The model
  is the second.

  \<^verbatim>\<open>validateSvgContent\<close>. \<^verbatim>\<open>rootKeys.find(key => key !== "?xml")\<close> is the first root
  key other than \<^verbatim>\<open>?xml\<close>, or \<^verbatim>\<open>undefined\<close>; \<^verbatim>\<open>!rootTag\<close> holds for \<^verbatim>\<open>undefined\<close>
  and for the empty string. An exception of the parser is caught and becomes a
  \<^verbatim>\<open>Parsing error\<close>.
\<close>

definition rootTagOf :: "(string \<times> jsval) list \<Rightarrow> string option" where
  "rootTagOf jsonObj = find (\<lambda>key. key \<noteq> ''?xml'') (map fst jsonObj)"

definition rootErrors :: "string option \<Rightarrow> string list" where
  "rootErrors rootTag =
     (if (case rootTag of None \<Rightarrow> True
          | Some t \<Rightarrow> t = [] \<or> stripNamespace t \<noteq> ''svg'')
      then [''Root element must be 'svg', found '' @ quoted (orElse rootTag ''none'')]
      else [])"

definition validateSvgContent :: "string set \<Rightarrow> xml_lib \<Rightarrow> string \<Rightarrow> verdict" where
  "validateSvgContent SVG_TAGS lib svgCode =
     (case XMLValidator_validate lib svgCode of
        ValidationError msg \<Rightarrow>
          \<lparr>valid = False,
           errors = [''XML Syntax Error: '' @ orElse msg ''Invalid XML''],
           warnings = []\<rparr>
      | VTrue \<Rightarrow>
          (case XMLParser_parse lib [] svgCode of
             Inl message \<Rightarrow>
               \<lparr>valid = False, errors = [''Parsing error: '' @ message], warnings = []\<rparr>
           | Inr jsonObj \<Rightarrow>
               (let errs = rootErrors (rootTagOf jsonObj);
                    warns = checkTags SVG_TAGS (JObject jsonObj)
                in \<lparr>valid = (errs = []), errors = errs, warnings = warns\<rparr>)))"

text \<open>
  The keys, at any depth and in the order of the walk, whose value has \<^verbatim>\<open>typeof\<close>
  \<^verbatim>\<open>"object"\<close>: the properties \<^verbatim>\<open>checkTags\<close> treats as elements.
\<close>

function objectKeys :: "jsval \<Rightarrow> string list" where
  "objectKeys obj =
     concat (map (\<lambda>(key, v). if typeof v = ''object'' then key # objectKeys v else [])
       (forIn obj))"
  by pat_completeness auto
termination
  by (relation "measure size") (auto dest: forIn_size)

declare objectKeys.simps [simp del]

section \<open>Byte buffers and base64\<close>

text \<open>
  A JavaScript string is modelled by its UTF-8 bytes, so \<^verbatim>\<open>Buffer.from(s)\<close> (UTF-8 by
  default) holds the characters of the model string. \<^verbatim>\<open>buf.toString("base64")\<close> is
  the base64 encoding of RFC 4648 with padding; \<open>fromBase64\<close> is its decoder, the
  reading of ``base64-decoded'' used for the data URI.
\<close>

definition Buffer_from :: "string \<Rightarrow> string" where
  "Buffer_from s = s"

definition base64Alphabet :: string where
  "base64Alphabet = ''ABCDEFGHIJKLMNOPQRSTUVWXYZabcdefghijklmnopqrstuvwxyz0123456789+/''"

definition b64char :: "nat \<Rightarrow> char" where
  "b64char i = base64Alphabet ! i"

definition b64index :: "char \<Rightarrow> nat option" where
  "b64index c = map_of (zip base64Alphabet [0..<64]) c"

fun toBase64 :: "string \<Rightarrow> string" where
  "toBase64 [] = []"
| "toBase64 [a] =
     (let x = of_char a :: nat in
      [b64char (x div 4), b64char ((x mod 4) * 16), CHR ''='', CHR ''=''])"
| "toBase64 [a, b] =
     (let x = of_char a :: nat; y = of_char b :: nat in
      [b64char (x div 4), b64char ((x mod 4) * 16 + y div 16), b64char ((y mod 16) * 4),
       CHR ''=''])"
| "toBase64 (a # b # c # rest) =
     (let x = of_char a :: nat; y = of_char b :: nat; z = of_char c :: nat in
      [b64char (x div 4), b64char ((x mod 4) * 16 + y div 16),
       b64char ((y mod 16) * 4 + z div 64), b64char (z mod 64)] @ toBase64 rest)"

fun fromBase64 :: "string \<Rightarrow> string option" where
  "fromBase64 [] = Some []"
| "fromBase64 (c1 # c2 # c3 # c4 # rest) =
     (case (b64index c1, b64index c2) of
        (Some i1, Some i2) \<Rightarrow>
          (if rest = [] \<and> c3 = CHR ''='' \<and> c4 = CHR ''=''
           then Some [char_of (i1 * 4 + i2 div 16)]
           else (case b64index c3 of
              None \<Rightarrow> None
            | Some i3 \<Rightarrow>
                (if rest = [] \<and> c4 = CHR ''=''
                 then Some [char_of (i1 * 4 + i2 div 16), char_of ((i2 mod 16) * 16 + i3 div 4)]
                 else (case b64index c4 of
                    None \<Rightarrow> None
                  | Some i4 \<Rightarrow>
                      map_option
                        (\<lambda>bytes. [char_of (i1 * 4 + i2 div 16),
                                  char_of ((i2 mod 16) * 16 + i3 div 4),
                                  char_of ((i3 mod 4) * 64 + i4)] @ bytes)
                        (fromBase64 rest)))))
      | _ \<Rightarrow> None)"
| "fromBase64 _ = None"

section \<open>File names and paths\<close>

text \<open>
  \<^verbatim>\<open>toLowerCase\<close> on the ASCII letters; \<^verbatim>\<open>s.split(sep)\<close>; and the POSIX
  \<^verbatim>\<open>path.resolve(cwd, p)\<close> and \<^verbatim>\<open>path.dirname(p)\<close> of the runtime, for an absolute
  working directory: an absolute \<open>p\<close> stands alone, a relative one is appended to
  \<open>cwd\<close>; empty and \<^verbatim>\<open>.\<close> segments are dropped, \<^verbatim>\<open>..\<close> removes the segment
  before it, and the result is the remaining segments after a leading slash.
\<close>

definition toLowerCase :: "string \<Rightarrow> string" where
  "toLowerCase s =
     map (\<lambda>c. let n = of_char c :: nat in if 65 \<le> n \<and> n \<le> 90 then char_of (n + 32) else c) s"

fun splitOn :: "char \<Rightarrow> string \<Rightarrow> string list" where
  "splitOn sep [] = [[]]"
| "splitOn sep (c # cs) =
     (if c = sep then [] # splitOn sep cs
      else (case splitOn sep cs of [] \<Rightarrow> [[c]] | w # ws \<Rightarrow> (c # w) # ws))"

definition pathStep :: "string list \<Rightarrow> string \<Rightarrow> string list" where
  "pathStep acc seg =
     (if seg = [] \<or> seg = ''.'' then acc
      else if seg = ''..'' then butlast acc
      else acc @ [seg])"

definition path_resolve :: "string \<Rightarrow> string \<Rightarrow> string" where
  "path_resolve cwd p =
     ''/'' @ join ''/''
       (foldl pathStep [] (splitOn (CHR ''/'') (if startsWith p ''/'' then p else cwd @ ''/'' @ p)))"

definition path_dirname :: "string \<Rightarrow> string" where
  "path_dirname p =
     (if p = [] then ''.''
      else
        (let hasRoot = (hd p = CHR ''/'');
             t = dropWhile (\<lambda>c. c = CHR ''/'') (rev p);
             u = dropWhile (\<lambda>c. c \<noteq> CHR ''/'') t;
             stop = length u - 1
         in if length u \<le> 1 then (if hasRoot then ''/'' else ''.'')
            else if hasRoot \<and> stop = 1 then ''//''
            else take stop p))"

section \<open>Response envelopes and collaborators\<close>

text \<open>
  A handler is an async function: it returns an envelope or throws an \<^verbatim>\<open>Error\<close>
  with a message. \<open>isError\<close> is true exactly when the envelope carries
  \<^verbatim>\<open>isError: true\<close>; the code never writes \<^verbatim>\<open>isError: false\<close>.
\<close>

datatype content_item = TextItem string | ImageItem string string

record envelope =
  content :: "content_item list"
  isError :: bool

datatype outcome = Returned envelope | Thrown string

definition textEnvelope :: "string \<Rightarrow> envelope" where
  "textEnvelope t = \<lparr>content = [TextItem t], isError = False\<rparr>"

definition errorEnvelope :: "string \<Rightarrow> envelope" where
  "errorEnvelope t = \<lparr>content = [TextItem t], isError = True\<rparr>"

text \<open>
  The calls a handler makes to its collaborators, in order. \<open>Mkdir\<close> is
  \<^verbatim>\<open>fs.mkdir(dir, { recursive: true })\<close>; \<open>Rasterize\<close> is the whole \<^verbatim>\<open>sharp\<close>
  pipeline, with the arguments of \<^verbatim>\<open>resize\<close> when it is called.
\<close>

datatype plugin = Plugin string | PluginActive string bool

datatype event =
    Rasterize string "(int option \<times> int option) option"
  | Optimize "plugin list" string
  | Format string
  | Transform bool string string
  | ConsoleWarn string
  | Mkdir string
  | WriteFile string string
  | CreateWriteStream string
  | DrawPdf string

record run =
  result :: outcome
  effects :: "event list"

text \<open>
  The collaborators are libraries outside the repository; each is a parameter that
  answers a call with its result, or with the message of the error it throws.
  \<open>svg_standards\<close> is the set \<^verbatim>\<open>SVG_TAGS\<close> that module exports.
  \<open>uuidv4\<close> is the identifier the next call of \<^verbatim>\<open>uuidv4()\<close> returns. Numbers are
  modelled as integers; the handlers only test them for truthiness and pass them on.
\<close>

record env =
  xml :: xml_lib
  svg_standards :: "string set"
  cwd :: string
  sharp :: "string \<Rightarrow> (int option \<times> int option) option \<Rightarrow> string + string"
  svgo_optimize :: "plugin list \<Rightarrow> string \<Rightarrow> string + string"
  xml_format :: "string \<Rightarrow> string + string"
  svgr_transform :: "bool \<Rightarrow> string \<Rightarrow> string \<Rightarrow> string + string"
  fs_mkdir :: "string \<Rightarrow> string option"
  fs_writeFile :: "string \<Rightarrow> string \<Rightarrow> string option"
  uuidv4 :: string
  SVGtoPDF :: "string \<Rightarrow> string + string"
  pdf_stream :: "string \<Rightarrow> string \<Rightarrow> string option"
  JSON_stringify :: "jsval \<Rightarrow> string"

section \<open>The operation handlers\<close>

text \<open>\<^verbatim>\<open>width || height\<close>: a number is truthy when it is given and not zero.\<close>

fun truthyNumber :: "int option \<Rightarrow> bool" where
  "truthyNumber None = False"
| "truthyNumber (Some n) = (n \<noteq> 0)"

definition render_svg :: "env \<Rightarrow> string \<Rightarrow> int option \<Rightarrow> int option \<Rightarrow> run" where
  "render_svg e svg_code width height =
     (let validation = validateSvgContent (svg_standards e) (xml e) svg_code in
      if \<not> valid validation
      then \<lparr>result = Thrown (''Invalid SVG: '' @ join ''; '' (errors validation)), effects = []\<rparr>
      else
        (let resize = (if truthyNumber width \<or> truthyNumber height
                       then Some (width, height) else None)
         in case sharp e (Buffer_from svg_code) resize of
              Inl message \<Rightarrow>
                \<lparr>result = Thrown (''Error rendering SVG: '' @ message),
                 effects = [Rasterize (Buffer_from svg_code) resize]\<rparr>
            | Inr pngBuffer \<Rightarrow>
                \<lparr>result = Returned
                   \<lparr>content = [ImageItem (toBase64 pngBuffer) ''image/png''], isError = False\<rparr>,
                 effects = [Rasterize (Buffer_from svg_code) resize]\<rparr>))"

definition savePlugins :: "plugin list" where
  "savePlugins = [Plugin ''preset-default'', Plugin ''removeDimensions'',
                  PluginActive ''removeViewBox'' False]"

definition optimizePlugins :: "plugin list" where
  "optimizePlugins = [Plugin ''preset-default'', PluginActive ''removeViewBox'' False]"

definition withSvgExtension :: "string \<Rightarrow> string" where
  "withSvgExtension filename =
     (if \<not> endsWith (toLowerCase filename) ''.svg'' then filename @ ''.svg'' else filename)"

definition save_svg :: "env \<Rightarrow> string \<Rightarrow> string \<Rightarrow> bool \<Rightarrow> run" where
  "save_svg e svg_code filename shouldOptimize =
     (let (content, optimizing) =
            (if shouldOptimize
             then (case svgo_optimize e savePlugins svg_code of
                     Inr data \<Rightarrow> (data, [Optimize savePlugins svg_code])
                   | Inl _ \<Rightarrow>
                       (svg_code, [Optimize savePlugins svg_code,
                                   ConsoleWarn ''Optimization failed, saving original'']))
             else (svg_code, []));
          finalPath = path_resolve (cwd e) (withSvgExtension filename);
          dir = path_dirname finalPath
      in case fs_mkdir e dir of
           Some message \<Rightarrow>
             \<lparr>result = Returned (errorEnvelope (''Error saving SVG: '' @ message)),
              effects = optimizing @ [Mkdir dir]\<rparr>
         | None \<Rightarrow>
             (case fs_writeFile e finalPath content of
                Some message \<Rightarrow>
                  \<lparr>result = Returned (errorEnvelope (''Error saving SVG: '' @ message)),
                   effects = optimizing @ [Mkdir dir, WriteFile finalPath content]\<rparr>
              | None \<Rightarrow>
                  \<lparr>result = Returned (textEnvelope finalPath),
                   effects = optimizing @ [Mkdir dir, WriteFile finalPath content]\<rparr>))"

definition optimize_svg :: "env \<Rightarrow> string \<Rightarrow> run" where
  "optimize_svg e svg_code =
     \<lparr>result = (case svgo_optimize e optimizePlugins svg_code of
                  Inr data \<Rightarrow> Returned (textEnvelope data)
                | Inl message \<Rightarrow> Returned (errorEnvelope (''Error optimizing SVG: '' @ message))),
      effects = [Optimize optimizePlugins svg_code]\<rparr>"

definition format_svg :: "env \<Rightarrow> string \<Rightarrow> run" where
  "format_svg e svg_code =
     \<lparr>result = (case xml_format e svg_code of
                  Inr formatted \<Rightarrow> Returned (textEnvelope formatted)
                | Inl message \<Rightarrow> Returned (errorEnvelope (''Error formatting SVG: '' @ message))),
      effects = [Format svg_code]\<rparr>"

definition svg_to_react :: "env \<Rightarrow> string \<Rightarrow> string \<Rightarrow> run" where
  "svg_to_react e svg_code component_name =
     \<lparr>result = (case svgr_transform e False svg_code component_name of
                  Inr jsCode \<Rightarrow> Returned (textEnvelope jsCode)
                | Inl message \<Rightarrow>
                    Returned (errorEnvelope (''Error converting to React: '' @ message))),
      effects = [Transform False svg_code component_name]\<rparr>"

definition svg_to_react_native :: "env \<Rightarrow> string \<Rightarrow> string \<Rightarrow> run" where
  "svg_to_react_native e svg_code component_name =
     \<lparr>result = (case svgr_transform e True svg_code component_name of
                  Inr jsCode \<Rightarrow> Returned (textEnvelope jsCode)
                | Inl message \<Rightarrow>
                    Returned (errorEnvelope (''Error converting to React Native: '' @ message))),
      effects = [Transform True svg_code component_name]\<rparr>"

text \<open>
  \<^verbatim>\<open>svg_to_data_uri\<close>: neither \<^verbatim>\<open>Buffer.from\<close> nor \<^verbatim>\<open>toString\<close> throws on a string,
  so the \<^verbatim>\<open>catch\<close> branch of the handler is never taken.
\<close>

definition svg_to_data_uri :: "env \<Rightarrow> string \<Rightarrow> run" where
  "svg_to_data_uri e svg_code =
     (let encoded = toBase64 (Buffer_from svg_code)
      in \<lparr>result = Returned (textEnvelope (''data:image/svg+xml;base64,'' @ encoded)),
          effects = []\<rparr>)"

text \<open>
  \<^verbatim>\<open>svg_to_pdf\<close>: the output directory is \<^verbatim>\<open>path.join(process.cwd(), "output")\<close>
  and the file \<^verbatim>\<open>path.join(OUTPUT_DIR, uuid + ".pdf")\<close>; on an absolute directory and a
  name without slashes \<^verbatim>\<open>join\<close> is \<^verbatim>\<open>resolve\<close>. The write stream is opened before
  the drawing; a failure of the stream arrives as its \<^verbatim>\<open>error\<close> event.
\<close>

definition OUTPUT_DIR :: "env \<Rightarrow> string" where
  "OUTPUT_DIR e = path_resolve (cwd e) ''output''"

definition svg_to_pdf :: "env \<Rightarrow> string \<Rightarrow> run" where
  "svg_to_pdf e svg_code =
     (let filename = uuidv4 e @ ''.pdf'';
          filepath = path_resolve (OUTPUT_DIR e) filename
      in case SVGtoPDF e svg_code of
           Inl message \<Rightarrow>
             \<lparr>result = Returned (errorEnvelope (''Error converting SVG to PDF: '' @ message)),
              effects = [CreateWriteStream filepath, DrawPdf svg_code]\<rparr>
         | Inr document \<Rightarrow>
             (case pdf_stream e filepath document of
                Some message \<Rightarrow>
                  \<lparr>result = Returned (errorEnvelope (''Error converting SVG to PDF: '' @ message)),
                   effects = [CreateWriteStream filepath, DrawPdf svg_code]\<rparr>
              | None \<Rightarrow>
                  \<lparr>result = Returned (textEnvelope (path_resolve (cwd e) filepath)),
                   effects = [CreateWriteStream filepath, DrawPdf svg_code]\<rparr>))"

definition verdictJson :: "verdict \<Rightarrow> jsval" where
  "verdictJson v =
     JObject [(''valid'', JBool (valid v)),
              (''errors'', JArray (map JString (errors v))),
              (''warnings'', JArray (map JString (warnings v)))]"

definition validate_svg :: "env \<Rightarrow> string \<Rightarrow> run" where
  "validate_svg e svg_code =
     (let result = validateSvgContent (svg_standards e) (xml e) svg_code
      in \<lparr>result = Returned (textEnvelope (JSON_stringify e (verdictJson result))),
          effects = []\<rparr>)"

text \<open>
  \<^verbatim>\<open>get_svg_metadata\<close>. \<^verbatim>\<open>!root\<close> is the falsiness of a JavaScript value; a property
  read on anything but an object gives \<^verbatim>\<open>undefined\<close> for the four names used here.
\<close>

fun truthy :: "jsval \<Rightarrow> bool" where
  "truthy JUndefined = False"
| "truthy JNull = False"
| "truthy (JBool b) = b"
| "truthy (JNumber n) = (n \<noteq> 0)"
| "truthy (JString s) = (s \<noteq> [])"
| "truthy (JArray _) = True"
| "truthy (JObject _) = True"

fun getProp :: "jsval \<Rightarrow> string \<Rightarrow> jsval" where
  "getProp (JObject kvs) key = (case map_of kvs key of None \<Rightarrow> JUndefined | Some v \<Rightarrow> v)"
| "getProp _ key = JUndefined"

definition get_svg_metadata :: "env \<Rightarrow> string \<Rightarrow> run" where
  "get_svg_metadata e svg_code =
     (case XMLParser_parse (xml e) ''@_'' svg_code of
        Inl message \<Rightarrow>
          \<lparr>result = Returned (errorEnvelope (''Error extracting metadata: '' @ message)),
           effects = []\<rparr>
      | Inr jsonObj \<Rightarrow>
          (let root0 = getProp (JObject jsonObj) ''svg'';
               root = (if \<not> truthy root0
                       then (case filter (\<lambda>k. k \<noteq> ''?xml'') (map fst jsonObj) of
                               [] \<Rightarrow> root0
                             | k # _ \<Rightarrow> getProp (JObject jsonObj) k)
                       else root0)
           in if \<not> truthy root
              then \<lparr>result = Returned (errorEnvelope
                      (''Error extracting metadata: '' @ ''Could not find SVG root element'')),
                    effects = []\<rparr>
              else \<lparr>result = Returned (textEnvelope (JSON_stringify e
                      (JObject [(''width'', getProp root ''@_width''),
                                (''height'', getProp root ''@_height''),
                                (''viewBox'', getProp root ''@_viewBox''),
                                (''title'', getProp root ''title'')]))),
                    effects = []\<rparr>))"

section \<open>Input contracts, request validation and dispatch\<close>

text \<open>
  The input shape of a tool is the \<^verbatim>\<open>z.object({ ... })\<close> it is registered with: each
  parameter has a name, a type (\<^verbatim>\<open>z.string()\<close>, \<^verbatim>\<open>z.number()\<close>, \<^verbatim>\<open>z.boolean()\<close>), is
  required unless marked \<^verbatim>\<open>.optional()\<close>, and may carry a \<^verbatim>\<open>.default(value)\<close>.
\<close>

datatype semtype = TString | TNumber | TBoolean

record param =
  pname :: string
  ptype :: semtype
  required :: bool
  pdefault :: "jsval option"

definition z_required :: "string \<Rightarrow> semtype \<Rightarrow> param" where
  "z_required name ty = \<lparr>pname = name, ptype = ty, required = True, pdefault = None\<rparr>"

definition z_optional :: "string \<Rightarrow> semtype \<Rightarrow> jsval option \<Rightarrow> param" where
  "z_optional name ty d = \<lparr>pname = name, ptype = ty, required = False, pdefault = d\<rparr>"

definition render_svg_schema :: "param list" where
  "render_svg_schema =
     [z_required ''svg_code'' TString, z_optional ''width'' TNumber None,
      z_optional ''height'' TNumber None]"

definition save_svg_schema :: "param list" where
  "save_svg_schema =
     [z_required ''svg_code'' TString, z_required ''filename'' TString,
      z_optional ''optimize'' TBoolean (Some (JBool True))]"

definition svg_code_schema :: "param list" where
  "svg_code_schema = [z_required ''svg_code'' TString]"

definition component_schema :: "param list" where
  "component_schema =
     [z_required ''svg_code'' TString,
      z_optional ''component_name'' TString (Some (JString ''SvgComponent''))]"

text \<open>The destructuring of the validated arguments at the head of each handler.\<close>

definition argString :: "(string \<times> jsval) list \<Rightarrow> string \<Rightarrow> string" where
  "argString args key = (case map_of args key of Some (JString s) \<Rightarrow> s | _ \<Rightarrow> [])"

definition argNumber :: "(string \<times> jsval) list \<Rightarrow> string \<Rightarrow> int option" where
  "argNumber args key = (case map_of args key of Some (JNumber n) \<Rightarrow> Some n | _ \<Rightarrow> None)"

definition argBoolean :: "(string \<times> jsval) list \<Rightarrow> string \<Rightarrow> bool" where
  "argBoolean args key = (case map_of args key of Some (JBool b) \<Rightarrow> b | _ \<Rightarrow> False)"

type_synonym handler = "env \<Rightarrow> (string \<times> jsval) list \<Rightarrow> run"

text \<open>The ten tools \<^verbatim>\<open>createServer\<close> registers, in order.\<close>

definition createServer :: "(string \<times> param list \<times> handler) list" where
  "createServer =
     [(''render_svg'', render_svg_schema,
         \<lambda>e a. render_svg e (argString a ''svg_code'') (argNumber a ''width'')
                  (argNumber a ''height'')),
      (''save_svg'', save_svg_schema,
         \<lambda>e a. save_svg e (argString a ''svg_code'') (argString a ''filename'')
                  (argBoolean a ''optimize'')),
      (''optimize_svg'', svg_code_schema, \<lambda>e a. optimize_svg e (argString a ''svg_code'')),
      (''format_svg'', svg_code_schema, \<lambda>e a. format_svg e (argString a ''svg_code'')),
      (''svg_to_react'', component_schema,
         \<lambda>e a. svg_to_react e (argString a ''svg_code'') (argString a ''component_name'')),
      (''svg_to_react_native'', component_schema,
         \<lambda>e a. svg_to_react_native e (argString a ''svg_code'')
                  (argString a ''component_name'')),
      (''svg_to_data_uri'', svg_code_schema, \<lambda>e a. svg_to_data_uri e (argString a ''svg_code'')),
      (''svg_to_pdf'', svg_code_schema, \<lambda>e a. svg_to_pdf e (argString a ''svg_code'')),
      (''validate_svg'', svg_code_schema, \<lambda>e a. validate_svg e (argString a ''svg_code'')),
      (''get_svg_metadata'', svg_code_schema,
         \<lambda>e a. get_svg_metadata e (argString a ''svg_code''))]"

datatype dispatch_error =
    UnknownOperation string
  | MissingParameter string
  | TypeMismatch string

fun hasType :: "semtype \<Rightarrow> jsval \<Rightarrow> bool" where
  "hasType TString v = (typeof v = ''string'')"
| "hasType TNumber v = (typeof v = ''number'')"
| "hasType TBoolean v = (typeof v = ''boolean'')"

text \<open>
  Modelled from the spec: the Request Validator (section 4.2). The check of the
  arguments against a tool's input shape is done by the protocol library and the
  schema library, which are not in the repository's sources. For each declared
  parameter, in order: required and absent fails with \<open>MissingParameter\<close>; present
  with the wrong type fails with \<open>TypeMismatch\<close>; optional and absent is replaced by
  the declared default, or left out. Keys that are not declared are ignored.
\<close>

fun validateRequest ::
  "param list \<Rightarrow> (string \<times> jsval) list \<Rightarrow> dispatch_error + (string \<times> jsval) list" where
  "validateRequest [] args = Inr []"
| "validateRequest (p # ps) args =
     (case map_of args (pname p) of
        None \<Rightarrow>
          (if required p then Inl (MissingParameter (pname p))
           else (case validateRequest ps args of
                   Inl err \<Rightarrow> Inl err
                 | Inr rest \<Rightarrow>
                     Inr ((case pdefault p of None \<Rightarrow> [] | Some d \<Rightarrow> [(pname p, d)]) @ rest)))
      | Some v \<Rightarrow>
          (if hasType (ptype p) v
           then (case validateRequest ps args of
                   Inl err \<Rightarrow> Inl err
                 | Inr rest \<Rightarrow> Inr ((pname p, v) # rest))
           else Inl (TypeMismatch (pname p))))"

text \<open>
  Modelled from the spec: \<open>dispatch\<close> of the Tool Registry (section 4.1), also done by
  the protocol library. An unknown name fails with \<open>UnknownOperation\<close>; otherwise the
  arguments are validated, and only validated arguments reach the handler.
\<close>

definition dispatch ::
  "(string \<times> param list \<times> handler) list \<Rightarrow> env \<Rightarrow> string \<Rightarrow> (string \<times> jsval) list
     \<Rightarrow> dispatch_error + run" where
  "dispatch registry e name args =
     (case map_of registry name of
        None \<Rightarrow> Inl (UnknownOperation name)
      | Some (contract, handle) \<Rightarrow>
          (case validateRequest contract args of
             Inl err \<Rightarrow> Inl err
           | Inr validated \<Rightarrow> Inr (handle e validated)))"

subsection \<open>Fixtures for the concrete instances\<close>

text \<open>
  A small vocabulary (the real \<^verbatim>\<open>SVG_TAGS\<close> is a parameter) and an XML library that
  answers every call with a fixed result.
\<close>

definition sampleTags :: "string set" where
  "sampleTags = set [''svg'', ''path'', ''circle'', ''g'', ''defs'', ''rect'', ''title'']"

definition stubLib :: "validation_result \<Rightarrow> string + (string \<times> jsval) list \<Rightarrow> xml_lib" where
  "stubLib v p = \<lparr>XMLValidator_validate = (\<lambda>_. v), XMLParser_parse = (\<lambda>_ _. p)\<rparr>"

text \<open>An environment in which every collaborator succeeds with a fixed answer.\<close>

definition stubEnv :: env where
  "stubEnv =
     \<lparr>xml = stubLib VTrue (Inr [(''svg'', JString [])]),
      svg_standards = sampleTags,
      cwd = ''/home/user/project'',
      sharp = (\<lambda>_ _. Inr ''PNG''),
      svgo_optimize = (\<lambda>_ _. Inr ''<svg/>''),
      xml_format = (\<lambda>s. Inr s),
      svgr_transform = (\<lambda>_ _ _. Inr ''export default SvgComponent''),
      fs_mkdir = (\<lambda>_. None),
      fs_writeFile = (\<lambda>_ _. None),
      uuidv4 = ''0000'',
      SVGtoPDF = (\<lambda>_. Inr ''PDF''),
      pdf_stream = (\<lambda>_ _. None),
      JSON_stringify = (\<lambda>_. ''{}'')\<rparr>"

text \<open>
  Environments in which collaborators throw: in the first the rasterizer, the minifier,
  the formatter, the code generator, the PDF drawing, directory creation and the parse
  for the metadata fail; in the second the file write and the PDF stream fail.
\<close>

definition failingEnv :: env where
  "failingEnv =
     stubEnv
       \<lparr>xml := \<lparr>XMLValidator_validate = (\<lambda>_. VTrue),
                XMLParser_parse = (\<lambda>prefix _. if prefix = [] then Inr [(''svg'', JString [])]
                                                else Inl ''boom'')\<rparr>,
        sharp := (\<lambda>_ _. Inl ''boom''),
        svgo_optimize := (\<lambda>_ _. Inl ''boom''),
        xml_format := (\<lambda>_. Inl ''boom''),
        svgr_transform := (\<lambda>_ _ _. Inl ''boom''),
        fs_mkdir := (\<lambda>_. Some ''boom''),
        SVGtoPDF := (\<lambda>_. Inl ''boom'')\<rparr>"

definition failingWriteEnv :: env where
  "failingWriteEnv =
     stubEnv\<lparr>fs_writeFile := (\<lambda>_ _. Some ''boom''), pdf_stream := (\<lambda>_ _. Some ''boom'')\<rparr>"

section \<open>Properties of the structural validator\<close>

subsection \<open>Namespace stripping\<close>

lemma firstLine_subset: "set (firstLine s) \<subseteq> set s"
  by (induction s) auto

lemma stripNamespace_no_colon: "CHR '':'' \<notin> set t \<Longrightarrow> stripNamespace t = t"
  using firstLine_subset [of t] by (auto simp: stripNamespace_def Let_def)

lemma stripNamespace_prefix:
  assumes "firstLine (p @ '':'' @ n) = p @ '':'' @ n" and "CHR '':'' \<notin> set n"
  shows "stripNamespace (p @ '':'' @ n) = n"
proof -
  have "takeWhile (\<lambda>c. c \<noteq> CHR '':'') (rev n @ '':'' @ rev p) = rev n"
    using assms(2) by (simp add: takeWhile_append)
  then show ?thesis
    unfolding stripNamespace_def assms(1) Let_def by simp
qed

subsection \<open>The walk over the parsed tree\<close>

text \<open>
  \<^verbatim>\<open>checkTags\<close> reports, in the order of the walk, exactly the keys with an
  object-typed value that pass its test, at every depth.
\<close>

lemma checkTags_objectKeys:
  "checkTags SVG_TAGS obj = map tagWarning (filter (nonStandard SVG_TAGS) (objectKeys obj))"
proof (induction SVG_TAGS obj rule: checkTags.induct)
  case (1 SVG_TAGS obj)
  let ?f = "\<lambda>(key, v).
           if typeof v = ''object''
           then (if nonStandard SVG_TAGS key then [tagWarning key] else []) @ checkTags SVG_TAGS v
           else []"
  let ?g = "\<lambda>(key, v). map tagWarning (filter (nonStandard SVG_TAGS)
           (if typeof v = ''object'' then key # objectKeys v else []))"
  have eq: "map ?f (forIn obj) = map ?g (forIn obj)"
    by (rule map_cong) (auto simp: "1.IH")
  have "checkTags SVG_TAGS obj = concat (map ?f (forIn obj))"
    by (subst checkTags.simps) simp
  also have "\<dots> = concat (map ?g (forIn obj))"
    by (simp only: eq)
  also have "\<dots> = map tagWarning (filter (nonStandard SVG_TAGS) (objectKeys obj))"
    by (subst objectKeys.simps) (simp add: map_concat filter_concat comp_def case_prod_unfold)
  finally show ?case .
qed

lemma checkTags_reports_object_elements:
  "key \<in> set (objectKeys obj) \<Longrightarrow> nonStandard SVG_TAGS key \<Longrightarrow>
     tagWarning key \<in> set (checkTags SVG_TAGS obj)"
  by (simp add: checkTags_objectKeys)

text \<open>
  So on well-formed input the warnings are those of the keys with an object-typed value,
  at any depth: an element the parser represents as an object is reported when its
  stripped name is not in the vocabulary.
\<close>

theorem warnings_are_object_elements:
  assumes "XMLValidator_validate lib svgCode = VTrue"
      and "XMLParser_parse lib [] svgCode = Inr jsonObj"
  shows "warnings (validateSvgContent SVG_TAGS lib svgCode) =
           map tagWarning (filter (nonStandard SVG_TAGS) (objectKeys (JObject jsonObj)))"
  using assms by (simp add: validateSvgContent_def Let_def checkTags_objectKeys)

theorem warnings_are_object_elements_witness:
  "warnings (validateSvgContent sampleTags
      (stubLib VTrue (Inr [(''svg'', JObject [(''g'', JObject [(''gadget'',
          JObject [(''id'', JString ''a''), (''x:gizmo'', JObject [(''id'', JString ''b'')])])])])]))
      ''<svg><g><gadget id='a'><x:gizmo id='b'/></gadget></g></svg>'')
   = [''Non-standard SVG tag found: '' @ [CHR 0x27] @ ''gadget'' @ [CHR 0x27],
      ''Non-standard SVG tag found: '' @ [CHR 0x27] @ ''gizmo'' @ [CHR 0x27]]"
  using warnings_are_object_elements [of
      "stubLib VTrue (Inr [(''svg'', JObject [(''g'', JObject [(''gadget'',
          JObject [(''id'', JString ''a''), (''x:gizmo'', JObject [(''id'', JString ''b'')])])])])])"
      "''<svg><g><gadget id='a'><x:gizmo id='b'/></gadget></g></svg>''"
      "[(''svg'', JObject [(''g'', JObject [(''gadget'',
          JObject [(''id'', JString ''a''), (''x:gizmo'', JObject [(''id'', JString ''b'')])])])])]"
      sampleTags]
  by (simp add: stubLib_def sampleTags_def objectKeys.simps nonStandard_def startsWith_def
      stripNamespace_def tagWarning_def quoted_def)

subsection \<open>Non-standard tags\<close>

text \<open>
  Claim C1: every well-formed source that contains an element whose stripped tag name
  is neither \<^verbatim>\<open>svg\<close> nor in the vocabulary, such as \<^verbatim>\<open><customShape/>\<close>, gets a
  warning naming that tag. The walk only looks at properties whose value has
  \<^verbatim>\<open>typeof\<close> \<^verbatim>\<open>"object"\<close>. The parser represents an element with neither attributes
  nor children as a string-valued property (\<^verbatim>\<open><svg><customShape/></svg>\<close> becomes
  \<^verbatim>\<open>{ svg: { customShape: "" } }\<close>), so on that tree the validator answers
  \<^verbatim>\<open>valid = true\<close> with no warning at all, whatever the vocabulary is.
\<close>

theorem C1_leaf_element_not_reported:
  assumes "XMLValidator_validate lib svgCode = VTrue"
      and "XMLParser_parse lib [] svgCode =
             Inr [(''svg'', JObject [(''customShape'', JString [])])]"
  shows "validateSvgContent SVG_TAGS lib svgCode = \<lparr>valid = True, errors = [], warnings = []\<rparr>"
  using assms
  by (simp add: validateSvgContent_def rootTagOf_def rootErrors_def quoted_def stripNamespace_def
      checkTags.simps nonStandard_def startsWith_def)

theorem C1_leaf_element_not_reported_witness:
  "''customShape'' \<notin> sampleTags \<and>
   validateSvgContent sampleTags
     (stubLib VTrue (Inr [(''svg'', JObject [(''customShape'', JString [])])]))
     ''<svg><customShape/></svg>''
   = \<lparr>valid = True, errors = [], warnings = []\<rparr>"
  using C1_leaf_element_not_reported [of
      "stubLib VTrue (Inr [(''svg'', JObject [(''customShape'', JString [])])])"
      "''<svg><customShape/></svg>''" sampleTags]
  by (simp add: stubLib_def sampleTags_def)

subsection \<open>Malformed input\<close>

text \<open>
  Claim C2: when the well-formedness check fails, the verdict is \<^verbatim>\<open>valid = false\<close> with
  the single error \<^verbatim>\<open>XML Syntax Error: <fault>\<close> and no warnings; neither the parser nor
  the vocabulary is consulted, so replacing them changes nothing.
\<close>

theorem C2_malformed_fails_fast:
  assumes "XMLValidator_validate lib svgCode = ValidationError msg"
  shows "validateSvgContent SVG_TAGS lib svgCode =
           \<lparr>valid = False,
            errors = [''XML Syntax Error: '' @ orElse msg ''Invalid XML''],
            warnings = []\<rparr>
         \<and> validateSvgContent SVG_TAGS' (lib\<lparr>XMLParser_parse := parse'\<rparr>) svgCode =
             validateSvgContent SVG_TAGS lib svgCode"
  using assms by (simp add: validateSvgContent_def)

theorem C2_malformed_fails_fast_witness:
  "validateSvgContent sampleTags
     (stubLib (ValidationError (Some ''Unclosed tag'')) (Inr [(''notsvg'', JObject [])]))
     ''<svg><rect></svg>''
     = \<lparr>valid = False, errors = [''XML Syntax Error: Unclosed tag''], warnings = []\<rparr>"
  using C2_malformed_fails_fast [of
      "stubLib (ValidationError (Some ''Unclosed tag'')) (Inr [(''notsvg'', JObject [])])"
      "''<svg><rect></svg>''" "Some ''Unclosed tag''" sampleTags sampleTags "\<lambda>_ _. Inr []"]
  by (simp add: stubLib_def)

subsection \<open>The root element\<close>

text \<open>
  Claim C3, as amended: on input that passes the well-formedness check and that the
  parser parses, the root tag is the first root key other than \<^verbatim>\<open>?xml\<close>; the error
  \<^verbatim>\<open>Root element must be 'svg', found '<tag-or-none>'\<close> is appended exactly when there
  is no such key, or it is empty, or its name after stripping the namespace prefix is
  not \<^verbatim>\<open>svg\<close>, and the tag walk runs in either case: the warnings are those of
  \<^verbatim>\<open>checkTags\<close> on the whole tree. When the parser throws on such input, neither the
  root check nor the walk is made: the only error is \<^verbatim>\<open>Parsing error: <message>\<close>.
  The instances below are a root \<^verbatim>\<open>Svg\<close> (rejected, and the walk still reports its
  tags), a root \<^verbatim>\<open>ns:svg\<close> (accepted) and a parser that throws.
\<close>

theorem C3_root_element_check:
  assumes "XMLValidator_validate lib svgCode = VTrue"
  shows "(case XMLParser_parse lib [] svgCode of
            Inl message \<Rightarrow>
              validateSvgContent SVG_TAGS lib svgCode =
                \<lparr>valid = False, errors = [''Parsing error: '' @ message], warnings = []\<rparr>
          | Inr jsonObj \<Rightarrow>
              errors (validateSvgContent SVG_TAGS lib svgCode) =
                (case find (\<lambda>key. key \<noteq> ''?xml'') (map fst jsonObj) of
                   None \<Rightarrow>
                     [''Root element must be 'svg', found '' @ [CHR 0x27] @ ''none'' @ [CHR 0x27]]
                 | Some t \<Rightarrow>
                     if t \<noteq> [] \<and> stripNamespace t = ''svg'' then []
                     else [''Root element must be 'svg', found '' @ [CHR 0x27]
                             @ (if t = [] then ''none'' else t) @ [CHR 0x27]])
              \<and> warnings (validateSvgContent SVG_TAGS lib svgCode) =
                  checkTags SVG_TAGS (JObject jsonObj))"
  using assms
  by (auto simp: validateSvgContent_def Let_def rootErrors_def quoted_def rootTagOf_def
      split: option.split sum.split)

theorem C3_root_element_check_witness:
  "errors (validateSvgContent sampleTags
      (stubLib VTrue (Inr [(''?xml'', JString []), (''Svg'', JObject [(''widget'', JObject [(''g'', JString [])])])]))
      ''<?xml?><Svg><widget><g/></widget></Svg>'')
     = [''Root element must be 'svg', found '' @ [CHR 0x27] @ ''Svg'' @ [CHR 0x27]]
   \<and> warnings (validateSvgContent sampleTags
      (stubLib VTrue (Inr [(''?xml'', JString []), (''Svg'', JObject [(''widget'', JObject [(''g'', JString [])])])]))
      ''<?xml?><Svg><widget><g/></widget></Svg>'')
     = [''Non-standard SVG tag found: '' @ [CHR 0x27] @ ''Svg'' @ [CHR 0x27],
        ''Non-standard SVG tag found: '' @ [CHR 0x27] @ ''widget'' @ [CHR 0x27]]
   \<and> errors (validateSvgContent sampleTags
      (stubLib VTrue (Inr [(''ns:svg'', JString [])])) ''<ns:svg/>'') = []
   \<and> errors (validateSvgContent sampleTags
      (stubLib VTrue (Inr [])) ''<!-- empty -->'')
     = [''Root element must be 'svg', found '' @ [CHR 0x27] @ ''none'' @ [CHR 0x27]]
   \<and> validateSvgContent sampleTags (stubLib VTrue (Inl ''Unexpected token'')) ''<svg/>''
     = \<lparr>valid = False, errors = [''Parsing error: Unexpected token''], warnings = []\<rparr>"
  using C3_root_element_check [of
      "stubLib VTrue (Inr [(''?xml'', JString []), (''Svg'', JObject [(''widget'', JObject [(''g'', JString [])])])])"
      "''<?xml?><Svg><widget><g/></widget></Svg>''" sampleTags]
    C3_root_element_check [of "stubLib VTrue (Inr [(''ns:svg'', JString [])])" "''<ns:svg/>''"
      sampleTags]
    C3_root_element_check [of "stubLib VTrue (Inr [])" "''<!-- empty -->''" sampleTags]
    C3_root_element_check [of "stubLib VTrue (Inl ''Unexpected token'')" "''<svg/>''" sampleTags]
  by (simp add: stubLib_def sampleTags_def stripNamespace_def checkTags.simps
      nonStandard_def startsWith_def tagWarning_def quoted_def)

text \<open>
  The claim as first stated promises the root error on every well-formed input where
  no root tag is found. With a validator that accepts and a parser that throws, no root
  tag is found, and the verdict holds the parsing error alone.
\<close>

theorem C3_parser_failure_counterexample:
  "validateSvgContent sampleTags
     (stubLib VTrue (Inl ''External entities are not supported''))
     ''<!DOCTYPE svg [<!ENTITY logo SYSTEM 'logo.svg'>]><svg/>''
   = \<lparr>valid = False,
      errors = [''Parsing error: External entities are not supported''],
      warnings = []\<rparr>
   \<and> ''Root element must be 'svg', found '' @ [CHR 0x27] @ ''none'' @ [CHR 0x27]
       \<notin> set (errors (validateSvgContent sampleTags
           (stubLib VTrue (Inl ''External entities are not supported''))
           ''<!DOCTYPE svg [<!ENTITY logo SYSTEM 'logo.svg'>]><svg/>''))"
  by (simp add: validateSvgContent_def stubLib_def)

subsection \<open>Validity and errors\<close>

text \<open>
  Claim C4: for every input and every behaviour of the XML library, \<^verbatim>\<open>valid\<close> is
  true exactly when \<^verbatim>\<open>errors\<close> is empty. The vocabulary, which decides the warnings
  and nothing else, changes neither \<^verbatim>\<open>valid\<close> nor \<^verbatim>\<open>errors\<close>.
\<close>

theorem C4_valid_iff_no_errors:
  "valid (validateSvgContent SVG_TAGS lib svgCode) = (errors (validateSvgContent SVG_TAGS lib svgCode) = [])
   \<and> valid (validateSvgContent SVG_TAGS' lib svgCode) = valid (validateSvgContent SVG_TAGS lib svgCode)
   \<and> errors (validateSvgContent SVG_TAGS' lib svgCode) = errors (validateSvgContent SVG_TAGS lib svgCode)"
  by (simp add: validateSvgContent_def Let_def split: validation_result.split sum.split)

theorem C4_valid_iff_no_errors_witness:
  "valid (validateSvgContent sampleTags
      (stubLib VTrue (Inr [(''svg'', JObject [(''widget'', JObject [(''g'', JString [])])])])) ''<svg><widget><g/></widget></svg>'')
   \<and> warnings (validateSvgContent sampleTags
      (stubLib VTrue (Inr [(''svg'', JObject [(''widget'', JObject [(''g'', JString [])])])])) ''<svg><widget><g/></widget></svg>'')
      = [''Non-standard SVG tag found: '' @ [CHR 0x27] @ ''widget'' @ [CHR 0x27]]"
  using C4_valid_iff_no_errors [of sampleTags
      "stubLib VTrue (Inr [(''svg'', JObject [(''widget'', JObject [(''g'', JString [])])])])"
      "''<svg><widget><g/></widget></svg>''" sampleTags]
  by (simp add: validateSvgContent_def stubLib_def sampleTags_def stripNamespace_def checkTags.simps
      nonStandard_def startsWith_def tagWarning_def quoted_def rootTagOf_def rootErrors_def)

section \<open>Properties of the handlers\<close>

subsection \<open>Paths\<close>

lemma splitOn_not_Nil: "splitOn sep s \<noteq> []"
  by (induction s) (auto split: list.split)

lemma splitOn_append: "splitOn sep (a @ sep # b) = splitOn sep a @ splitOn sep b"
proof (induction a)
  case Nil
  show ?case by simp
next
  case (Cons c cs)
  obtain w ws where "splitOn sep cs = w # ws"
    using splitOn_not_Nil [of sep cs] by (cases "splitOn sep cs") auto
  with Cons show ?case by simp
qed

lemma splitOn_no_sep: "sep \<notin> set s \<Longrightarrow> splitOn sep s = [s]"
  by (induction s) auto

lemma join_snoc: "join sep (xs @ [s]) = (if xs = [] then s else join sep xs @ sep @ s)"
  by (induction sep xs rule: join.induct) auto

lemma path_resolve_relative_name:
  assumes "CHR ''/'' \<notin> set name" and "name \<noteq> []" and "name \<noteq> ''.''" and "name \<noteq> ''..''"
  shows "\<exists>dir. path_resolve wd name = dir @ ''/'' @ name"
proof -
  have rel: "\<not> startsWith name ''/''"
    using assms(1,2) by (cases name) (auto simp: startsWith_def)
  have split: "splitOn (CHR ''/'') (wd @ CHR ''/'' # name) = splitOn (CHR ''/'') wd @ [name]"
    using splitOn_append [of "CHR ''/''" wd name] splitOn_no_sep [OF assms(1)] by simp
  have "path_resolve wd name =
          ''/'' @ join ''/'' (foldl pathStep [] (splitOn (CHR ''/'') wd) @ [name])"
    using rel assms(2-4) by (simp add: path_resolve_def split pathStep_def)
  then show ?thesis
    by (cases "foldl pathStep [] (splitOn (CHR ''/'') wd) = []") (auto simp: join_snoc)
qed

lemma endsWith_append: "endsWith (a @ b) b"
  by (simp add: endsWith_def)

subsection \<open>Base64\<close>

text \<open>Decoding inverts encoding, for every byte sequence.\<close>

lemma b64_table:
  "list_all (\<lambda>i. b64index (b64char i) = Some i \<and> b64char i \<noteq> CHR ''='') [0..<64]"
  by code_simp

lemma b64index_b64char: "i < 64 \<Longrightarrow> b64index (b64char i) = Some i"
  using b64_table by (simp add: list_all_iff)

lemma b64char_not_pad: "i < 64 \<Longrightarrow> b64char i \<noteq> CHR ''=''"
  using b64_table by (simp add: list_all_iff)

lemma of_char_lt: "(of_char (c::char) :: nat) < 256"
proof -
  have "(of_char c :: nat) mod 256 < 256" by (rule mod_less_divisor) simp
  then show ?thesis by (simp only: of_char_mod_256)
qed

lemma sextets:
  fixes x y z :: nat
  assumes "x < 256" "y < 256" "z < 256"
  shows "x div 4 < 64" "(x mod 4) * 16 + y div 16 < 64" "(y mod 16) * 4 + z div 64 < 64"
        "z mod 64 < 64" "(x mod 4) * 16 < 64" "(y mod 16) * 4 < 64"
  using assms by auto

lemma octet1: "x div 4 * 4 + ((x mod 4) * 16 + y div 16) div 16 = (x::nat)" if "y < 256"
  using that by simp

lemma octet2:
  "(((x mod 4) * 16 + y div 16) mod 16) * 16 + ((y mod 16) * 4 + z div 64) div 4 = (y::nat)"
  if "y < 256" "z < 256"
proof -
  have a: "((x mod 4) * 16 + y div 16) mod 16 = y div 16" using that by simp
  have b: "((y mod 16) * 4 + z div 64) div 4 = y mod 16" using that by simp
  show ?thesis unfolding a b by simp
qed

lemma octet3: "(((y mod 16) * 4 + z div 64) mod 4) * 64 + z mod 64 = (z::nat)" if "z < 256"
proof -
  have a: "((y mod 16) * 4 + z div 64) mod 4 = z div 64" using that by simp
  show ?thesis unfolding a by simp
qed

lemma octet2_last:
  "(((x mod 4) * 16 + y div 16) mod 16) * 16 + (y mod 16) * 4 div 4 = (y::nat)" if "y < 256"
proof -
  have a: "((x mod 4) * 16 + y div 16) mod 16 = y div 16" using that by simp
  show ?thesis unfolding a by simp
qed

lemma octet1_last: "x div 4 * 4 + (x mod 4) * 16 div 16 = (x::nat)"
  by simp

lemma fromBase64_toBase64: "fromBase64 (toBase64 bytes) = Some bytes"
proof (induction bytes rule: toBase64.induct)
  case 1
  show ?case by simp
next
  case (2 a)
  note s = sextets [OF of_char_lt [of a] of_char_lt [of a] of_char_lt [of a]]
  note o1 = octet1_last [of "of_char a"]
  from s o1 show ?case
    by (simp add: Let_def b64index_b64char)
next
  case (3 a b)
  note s = sextets [OF of_char_lt [of a] of_char_lt [of b] of_char_lt [of b]]
  note o1 = octet1 [OF of_char_lt [of b], of "of_char a"]
  note o2 = octet2_last [OF of_char_lt [of b], of "of_char a"]
  from s o1 o2 show ?case
    by (simp add: Let_def b64index_b64char b64char_not_pad)
next
  case (4 a b c rest)
  note s = sextets [OF of_char_lt [of a] of_char_lt [of b] of_char_lt [of c]]
  note o1 = octet1 [OF of_char_lt [of b], of "of_char a"]
  note o2 = octet2 [OF of_char_lt [of b] of_char_lt [of c], of "of_char a"]
  note o3 = octet3 [OF of_char_lt [of c], of "of_char b"]
  from s o1 o2 o3 "4.IH" show ?case
    by (simp add: Let_def b64index_b64char b64char_not_pad)
qed

subsection \<open>Rendering\<close>

text \<open>
  Claim C5: when the validator says \<^verbatim>\<open>valid = false\<close>, \<^verbatim>\<open>render_svg\<close> throws
  \<^verbatim>\<open>Invalid SVG: <errors joined by "; ">\<close>. It returns no envelope, hence no image
  item, and has called no collaborator: the rasterizer is never reached.
\<close>

theorem C5_render_rejects_invalid:
  assumes "\<not> valid (validateSvgContent (svg_standards e) (xml e) svg_code)"
  shows "render_svg e svg_code width height =
           \<lparr>result = Thrown (''Invalid SVG: '' @
               join ''; '' (errors (validateSvgContent (svg_standards e) (xml e) svg_code))),
            effects = []\<rparr>"
  using assms by (simp add: render_svg_def)

theorem C5_render_rejects_invalid_witness:
  "render_svg (stubEnv\<lparr>xml := stubLib VTrue (Inr [(''notsvg'', JString [])])\<rparr>)
      ''<notsvg/>'' None None =
     \<lparr>result = Thrown (''Invalid SVG: Root element must be 'svg', found '' @ [CHR 0x27] @ ''notsvg'' @ [CHR 0x27]),
      effects = []\<rparr>"
proof -
  have "\<not> valid (validateSvgContent
          (svg_standards (stubEnv\<lparr>xml := stubLib VTrue (Inr [(''notsvg'', JString [])])\<rparr>))
          (xml (stubEnv\<lparr>xml := stubLib VTrue (Inr [(''notsvg'', JString [])])\<rparr>)) ''<notsvg/>'')"
    by (simp add: validateSvgContent_def stubLib_def rootTagOf_def rootErrors_def quoted_def
        stripNamespace_def)
  from C5_render_rejects_invalid [OF this, of None None] show ?thesis
    by (simp add: validateSvgContent_def stubLib_def rootTagOf_def rootErrors_def quoted_def
        stripNamespace_def checkTags.simps)
qed

subsection \<open>Saving\<close>

text \<open>
  Claim C7: \<^verbatim>\<open>save_svg\<close> with the file name \<^verbatim>\<open>icon\<close> and \<^verbatim>\<open>optimize = false\<close>, in a
  file system where creating the directory and writing the file succeed: the minifier
  is not called, the parent directory of the resolved path is created, exactly the
  given source is written to the resolved path of \<^verbatim>\<open>icon.svg\<close>, which ends in
  \<^verbatim>\<open>/icon.svg\<close>, and the envelope returned carries that path and no error flag.
\<close>

theorem C7_save_unoptimized:
  assumes "fs_mkdir e (path_dirname (path_resolve (cwd e) ''icon.svg'')) = None"
      and "fs_writeFile e (path_resolve (cwd e) ''icon.svg'') svg_code = None"
  shows "save_svg e svg_code ''icon'' False =
           \<lparr>result = Returned
              \<lparr>content = [TextItem (path_resolve (cwd e) ''icon.svg'')], isError = False\<rparr>,
            effects = [Mkdir (path_dirname (path_resolve (cwd e) ''icon.svg'')),
                       WriteFile (path_resolve (cwd e) ''icon.svg'') svg_code]\<rparr>
         \<and> endsWith (path_resolve (cwd e) ''icon.svg'') ''/icon.svg''"
proof -
  have ext: "withSvgExtension ''icon'' = ''icon.svg''"
    by (simp add: withSvgExtension_def endsWith_def toLowerCase_def)
  obtain dir where "path_resolve (cwd e) ''icon.svg'' = dir @ ''/'' @ ''icon.svg''"
    using path_resolve_relative_name [of "''icon.svg''" "cwd e"] by auto
  then have "endsWith (path_resolve (cwd e) ''icon.svg'') ''/icon.svg''"
    using endsWith_append [of dir "''/icon.svg''"] by simp
  then show ?thesis
    using assms by (simp add: save_svg_def ext textEnvelope_def Let_def)
qed

theorem C7_save_unoptimized_witness:
  "save_svg stubEnv ''<svg></svg>'' ''icon'' False =
     \<lparr>result = Returned
        \<lparr>content = [TextItem ''/home/user/project/icon.svg''], isError = False\<rparr>,
      effects = [Mkdir ''/home/user/project'',
                 WriteFile ''/home/user/project/icon.svg'' ''<svg></svg>'']\<rparr>"
proof -
  have r: "path_resolve (cwd stubEnv) ''icon.svg'' = ''/home/user/project/icon.svg''"
    by (simp add: stubEnv_def path_resolve_def startsWith_def pathStep_def)
  have d: "path_dirname ''/home/user/project/icon.svg'' = ''/home/user/project''"
    by (simp add: path_dirname_def)
  have "fs_mkdir stubEnv (path_dirname (path_resolve (cwd stubEnv) ''icon.svg'')) = None"
       "fs_writeFile stubEnv (path_resolve (cwd stubEnv) ''icon.svg'') ''<svg></svg>'' = None"
    by (simp_all add: stubEnv_def)
  from C7_save_unoptimized [OF this] show ?thesis
    by (simp add: r d)
qed

text \<open>
  Claim C10: when the minifier throws during \<^verbatim>\<open>save_svg\<close> with \<^verbatim>\<open>optimize = true\<close>,
  the handler logs a warning and goes on as with \<^verbatim>\<open>optimize = false\<close>: same result,
  same file operations on the original source. Where the directory and the file can be
  written, that result is the envelope with the resolved path and no error flag.
\<close>

theorem C10_minifier_failure_falls_back:
  assumes "svgo_optimize e savePlugins svg_code = Inl message"
  shows "result (save_svg e svg_code filename True) = result (save_svg e svg_code filename False)
       \<and> effects (save_svg e svg_code filename True) =
           [Optimize savePlugins svg_code, ConsoleWarn ''Optimization failed, saving original'']
           @ effects (save_svg e svg_code filename False)
       \<and> (fs_mkdir e (path_dirname (path_resolve (cwd e) (withSvgExtension filename))) = None
          \<and> fs_writeFile e (path_resolve (cwd e) (withSvgExtension filename)) svg_code = None
          \<longrightarrow> save_svg e svg_code filename True =
               \<lparr>result = Returned
                  \<lparr>content = [TextItem (path_resolve (cwd e) (withSvgExtension filename))],
                   isError = False\<rparr>,
                effects =
                  [Optimize savePlugins svg_code,
                   ConsoleWarn ''Optimization failed, saving original'',
                   Mkdir (path_dirname (path_resolve (cwd e) (withSvgExtension filename))),
                   WriteFile (path_resolve (cwd e) (withSvgExtension filename)) svg_code]\<rparr>)"
  using assms
  by (simp add: save_svg_def Let_def textEnvelope_def split: option.split)

theorem C10_minifier_failure_falls_back_witness:
  "save_svg (stubEnv\<lparr>svgo_optimize := \<lambda>_ _. Inl ''parse error''\<rparr>) ''<svg>'' ''logo.svg'' True =
     \<lparr>result = Returned
        \<lparr>content = [TextItem ''/home/user/project/logo.svg''], isError = False\<rparr>,
      effects = [Optimize savePlugins ''<svg>'',
                 ConsoleWarn ''Optimization failed, saving original'',
                 Mkdir ''/home/user/project'',
                 WriteFile ''/home/user/project/logo.svg'' ''<svg>'']\<rparr>"
proof -
  let ?e = "stubEnv\<lparr>svgo_optimize := \<lambda>_ _. Inl ''parse error''\<rparr>"
  have ext: "withSvgExtension ''logo.svg'' = ''logo.svg''"
    by (simp add: withSvgExtension_def endsWith_def toLowerCase_def)
  have r: "path_resolve (cwd stubEnv) ''logo.svg'' = ''/home/user/project/logo.svg''"
    by (simp add: stubEnv_def path_resolve_def startsWith_def pathStep_def)
  have d: "path_dirname ''/home/user/project/logo.svg'' = ''/home/user/project''"
    by (simp add: path_dirname_def)
  have f: "svgo_optimize ?e savePlugins ''<svg>'' = Inl ''parse error''" by simp
  have ok: "fs_mkdir ?e ''/home/user/project'' = None"
           "fs_writeFile ?e ''/home/user/project/logo.svg'' ''<svg>'' = None"
    by (simp_all add: stubEnv_def)
  from C10_minifier_failure_falls_back [OF f, of "''logo.svg''"] ok show ?thesis
    by (simp add: ext r d)
qed

subsection \<open>Data URIs\<close>

text \<open>
  Claim C8: the text \<^verbatim>\<open>svg_to_data_uri\<close> returns is the prefix
  \<^verbatim>\<open>data:image/svg+xml;base64,\<close> followed by a payload, and decoding what is left
  after dropping the prefix gives back the input, byte for byte.
\<close>

theorem C8_data_uri_round_trip:
  "svg_to_data_uri e svg_code =
     \<lparr>result = Returned
        \<lparr>content = [TextItem (''data:image/svg+xml;base64,'' @ toBase64 svg_code)],
         isError = False\<rparr>,
      effects = []\<rparr>
   \<and> fromBase64 (drop (length ''data:image/svg+xml;base64,'')
         (''data:image/svg+xml;base64,'' @ toBase64 svg_code)) = Some svg_code"
  by (simp add: svg_to_data_uri_def Buffer_from_def fromBase64_toBase64 textEnvelope_def)

theorem C8_data_uri_round_trip_witness:
  "svg_to_data_uri stubEnv ''<svg/>'' =
     \<lparr>result = Returned
        \<lparr>content = [TextItem ''data:image/svg+xml;base64,PHN2Zy8+''], isError = False\<rparr>,
      effects = []\<rparr>
   \<and> fromBase64 (drop 26 ''data:image/svg+xml;base64,PHN2Zy8+'') = Some ''<svg/>''"
proof -
  have enc: "toBase64 ''<svg/>'' = ''PHN2Zy8+''" by code_simp
  from C8_data_uri_round_trip [of stubEnv "''<svg/>''"] show ?thesis
    unfolding enc by simp
qed

subsection \<open>Failures of collaborators\<close>

text \<open>
  Claim C6, as amended: in every handler but \<^verbatim>\<open>render_svg\<close>, a failure thrown by a
  collaborator inside the handler's \<^verbatim>\<open>try\<close> block is returned as an envelope with
  \<^verbatim>\<open>isError = true\<close> whose single text item is \<^verbatim>\<open>Error <doing X>: <message>\<close> (for
  \<^verbatim>\<open>save_svg\<close> these are the directory creation and the file write). In
  \<^verbatim>\<open>render_svg\<close> a failure of the rasterizer is caught and thrown again, as a fault
  with the message \<^verbatim>\<open>Error rendering SVG: <message>\<close>.
\<close>

theorem C6_collaborator_failures:
  "(svgo_optimize e optimizePlugins svg_code = Inl message \<longrightarrow>
      result (optimize_svg e svg_code) =
        Returned \<lparr>content = [TextItem (''Error optimizing SVG: '' @ message)], isError = True\<rparr>)
 \<and> (xml_format e svg_code = Inl message \<longrightarrow>
      result (format_svg e svg_code) =
        Returned \<lparr>content = [TextItem (''Error formatting SVG: '' @ message)], isError = True\<rparr>)
 \<and> (svgr_transform e False svg_code component_name = Inl message \<longrightarrow>
      result (svg_to_react e svg_code component_name) =
        Returned \<lparr>content = [TextItem (''Error converting to React: '' @ message)], isError = True\<rparr>)
 \<and> (svgr_transform e True svg_code component_name = Inl message \<longrightarrow>
      result (svg_to_react_native e svg_code component_name) =
        Returned \<lparr>content = [TextItem (''Error converting to React Native: '' @ message)], isError = True\<rparr>)
 \<and> (SVGtoPDF e svg_code = Inl message \<longrightarrow>
      result (svg_to_pdf e svg_code) =
        Returned \<lparr>content = [TextItem (''Error converting SVG to PDF: '' @ message)], isError = True\<rparr>)
 \<and> (SVGtoPDF e svg_code = Inr document
      \<and> pdf_stream e (path_resolve (OUTPUT_DIR e) (uuidv4 e @ ''.pdf'')) document = Some message \<longrightarrow>
      result (svg_to_pdf e svg_code) =
        Returned \<lparr>content = [TextItem (''Error converting SVG to PDF: '' @ message)], isError = True\<rparr>)
 \<and> (XMLParser_parse (xml e) ''@_'' svg_code = Inl message \<longrightarrow>
      result (get_svg_metadata e svg_code) =
        Returned \<lparr>content = [TextItem (''Error extracting metadata: '' @ message)], isError = True\<rparr>)
 \<and> (fs_mkdir e (path_dirname (path_resolve (cwd e) (withSvgExtension filename))) = Some message \<longrightarrow>
      result (save_svg e svg_code filename shouldOptimize) =
        Returned \<lparr>content = [TextItem (''Error saving SVG: '' @ message)], isError = True\<rparr>)
 \<and> (fs_mkdir e (path_dirname (path_resolve (cwd e) (withSvgExtension filename))) = None
      \<and> fs_writeFile e (path_resolve (cwd e) (withSvgExtension filename))
           (if shouldOptimize
            then (case svgo_optimize e savePlugins svg_code of
                    Inr data \<Rightarrow> data | Inl _ \<Rightarrow> svg_code)
            else svg_code) = Some message \<longrightarrow>
      result (save_svg e svg_code filename shouldOptimize) =
        Returned \<lparr>content = [TextItem (''Error saving SVG: '' @ message)], isError = True\<rparr>)
 \<and> (valid (validateSvgContent (svg_standards e) (xml e) svg_code)
      \<and> sharp e svg_code
           (if truthyNumber width \<or> truthyNumber height then Some (width, height) else None)
          = Inl message \<longrightarrow>
      result (render_svg e svg_code width height) =
        Thrown (''Error rendering SVG: '' @ message))"
proof (intro conjI impI)
  show "result (optimize_svg e svg_code) =
          Returned \<lparr>content = [TextItem (''Error optimizing SVG: '' @ message)], isError = True\<rparr>"
    if "svgo_optimize e optimizePlugins svg_code = Inl message"
    using that by (simp add: optimize_svg_def errorEnvelope_def)
  show "result (format_svg e svg_code) =
          Returned \<lparr>content = [TextItem (''Error formatting SVG: '' @ message)], isError = True\<rparr>"
    if "xml_format e svg_code = Inl message"
    using that by (simp add: format_svg_def errorEnvelope_def)
  show "result (svg_to_react e svg_code component_name) =
          Returned \<lparr>content = [TextItem (''Error converting to React: '' @ message)], isError = True\<rparr>"
    if "svgr_transform e False svg_code component_name = Inl message"
    using that by (simp add: svg_to_react_def errorEnvelope_def)
  show "result (svg_to_react_native e svg_code component_name) =
          Returned \<lparr>content = [TextItem (''Error converting to React Native: '' @ message)], isError = True\<rparr>"
    if "svgr_transform e True svg_code component_name = Inl message"
    using that by (simp add: svg_to_react_native_def errorEnvelope_def)
  show "result (svg_to_pdf e svg_code) =
          Returned \<lparr>content = [TextItem (''Error converting SVG to PDF: '' @ message)], isError = True\<rparr>"
    if "SVGtoPDF e svg_code = Inl message"
    using that by (simp add: svg_to_pdf_def Let_def errorEnvelope_def)
  show "result (svg_to_pdf e svg_code) =
          Returned \<lparr>content = [TextItem (''Error converting SVG to PDF: '' @ message)], isError = True\<rparr>"
    if "SVGtoPDF e svg_code = Inr document
        \<and> pdf_stream e (path_resolve (OUTPUT_DIR e) (uuidv4 e @ ''.pdf'')) document = Some message"
    using that by (simp add: svg_to_pdf_def Let_def errorEnvelope_def)
  show "result (get_svg_metadata e svg_code) =
          Returned \<lparr>content = [TextItem (''Error extracting metadata: '' @ message)], isError = True\<rparr>"
    if "XMLParser_parse (xml e) ''@_'' svg_code = Inl message"
    using that by (simp add: get_svg_metadata_def errorEnvelope_def)
  show "result (save_svg e svg_code filename shouldOptimize) =
          Returned \<lparr>content = [TextItem (''Error saving SVG: '' @ message)], isError = True\<rparr>"
    if "fs_mkdir e (path_dirname (path_resolve (cwd e) (withSvgExtension filename))) = Some message"
    using that by (simp add: save_svg_def Let_def errorEnvelope_def split: sum.split)
  show "result (save_svg e svg_code filename shouldOptimize) =
          Returned \<lparr>content = [TextItem (''Error saving SVG: '' @ message)], isError = True\<rparr>"
    if "fs_mkdir e (path_dirname (path_resolve (cwd e) (withSvgExtension filename))) = None
        \<and> fs_writeFile e (path_resolve (cwd e) (withSvgExtension filename))
             (if shouldOptimize
              then (case svgo_optimize e savePlugins svg_code of
                      Inr data \<Rightarrow> data | Inl _ \<Rightarrow> svg_code)
              else svg_code) = Some message"
    using that
    by (cases shouldOptimize; cases "svgo_optimize e savePlugins svg_code")
       (simp_all add: save_svg_def Let_def errorEnvelope_def)
  show "result (render_svg e svg_code width height) = Thrown (''Error rendering SVG: '' @ message)"
    if "valid (validateSvgContent (svg_standards e) (xml e) svg_code)
        \<and> sharp e svg_code
             (if truthyNumber width \<or> truthyNumber height then Some (width, height) else None)
            = Inl message"
    using that by (simp add: render_svg_def Let_def Buffer_from_def)
qed

theorem C6_collaborator_failures_witness:
  "result (optimize_svg failingEnv ''<svg/>'') =
     Returned \<lparr>content = [TextItem ''Error optimizing SVG: boom''], isError = True\<rparr>
 \<and> result (format_svg failingEnv ''<svg/>'') =
     Returned \<lparr>content = [TextItem ''Error formatting SVG: boom''], isError = True\<rparr>
 \<and> result (svg_to_react failingEnv ''<svg/>'' ''Icon'') =
     Returned \<lparr>content = [TextItem ''Error converting to React: boom''], isError = True\<rparr>
 \<and> result (svg_to_react_native failingEnv ''<svg/>'' ''Icon'') =
     Returned \<lparr>content = [TextItem ''Error converting to React Native: boom''], isError = True\<rparr>
 \<and> result (svg_to_pdf failingEnv ''<svg/>'') =
     Returned \<lparr>content = [TextItem ''Error converting SVG to PDF: boom''], isError = True\<rparr>
 \<and> result (svg_to_pdf failingWriteEnv ''<svg/>'') =
     Returned \<lparr>content = [TextItem ''Error converting SVG to PDF: boom''], isError = True\<rparr>
 \<and> result (get_svg_metadata failingEnv ''<svg/>'') =
     Returned \<lparr>content = [TextItem ''Error extracting metadata: boom''], isError = True\<rparr>
 \<and> result (save_svg failingEnv ''<svg/>'' ''icon'' True) =
     Returned \<lparr>content = [TextItem ''Error saving SVG: boom''], isError = True\<rparr>
 \<and> result (save_svg failingWriteEnv ''<svg></svg>'' ''icon'' True) =
     Returned \<lparr>content = [TextItem ''Error saving SVG: boom''], isError = True\<rparr>
 \<and> result (save_svg failingWriteEnv ''<svg></svg>'' ''icon'' False) =
     Returned \<lparr>content = [TextItem ''Error saving SVG: boom''], isError = True\<rparr>
 \<and> result (render_svg failingEnv ''<svg/>'' None None) = Thrown ''Error rendering SVG: boom''"
  using C6_collaborator_failures [where e = failingEnv and svg_code = "''<svg/>''"
      and message = "''boom''" and component_name = "''Icon''" and document = "''PDF''"
      and filename = "''icon''" and shouldOptimize = True and width = None and height = None]
    C6_collaborator_failures [where e = failingWriteEnv and svg_code = "''<svg/>''"
      and message = "''boom''" and component_name = "''Icon''" and document = "''PDF''"
      and filename = "''icon''" and shouldOptimize = False and width = None and height = None]
    C6_collaborator_failures [where e = failingWriteEnv and svg_code = "''<svg></svg>''"
      and message = "''boom''" and component_name = "''Icon''" and document = "''PDF''"
      and filename = "''icon''" and shouldOptimize = True and width = None and height = None]
    C6_collaborator_failures [where e = failingWriteEnv and svg_code = "''<svg></svg>''"
      and message = "''boom''" and component_name = "''Icon''" and document = "''PDF''"
      and filename = "''icon''" and shouldOptimize = False and width = None and height = None]
  by (simp add: failingEnv_def failingWriteEnv_def stubEnv_def validateSvgContent_def Let_def
      rootTagOf_def rootErrors_def quoted_def stripNamespace_def)

text \<open>
  The claim as first stated counts the rasterizer among the failures that come back as
  an envelope. With a rasterizer that throws, on a source the validator accepts, the
  handler throws.
\<close>

theorem C6_rasterizer_failure_counterexample:
  "render_svg failingEnv ''<svg/>'' None None =
     \<lparr>result = Thrown ''Error rendering SVG: boom'', effects = [Rasterize ''<svg/>'' None]\<rparr>"
  by (simp add: render_svg_def failingEnv_def stubEnv_def validateSvgContent_def Let_def
      rootTagOf_def rootErrors_def quoted_def stripNamespace_def Buffer_from_def)

section \<open>Properties of request validation\<close>

lemma validateRequest_declared_only:
  "(\<forall>q \<in> set contract. map_of args' (pname q) = map_of args (pname q)) \<Longrightarrow>
     validateRequest contract args' = validateRequest contract args"
  by (induction contract) (auto split: option.split)

lemma validateRequest_missing_fails:
  "p \<in> set contract \<Longrightarrow> required p \<Longrightarrow> map_of args (pname p) = None \<Longrightarrow>
     \<exists>err. validateRequest contract args = Inl err"
  by (induction contract) (auto split: option.split sum.split)

lemma validateRequest_missing_parameter:
  "p \<in> set contract \<Longrightarrow> required p \<Longrightarrow> map_of args (pname p) = None \<Longrightarrow>
   (\<forall>q \<in> set contract. \<forall>v. map_of args (pname q) = Some v \<longrightarrow> hasType (ptype q) v) \<Longrightarrow>
     \<exists>q \<in> set contract. required q \<and> map_of args (pname q) = None
        \<and> validateRequest contract args = Inl (MissingParameter (pname q))"
proof (induction contract)
  case Nil
  then show ?case by simp
next
  case (Cons a contract)
  show ?case
  proof (cases "map_of args (pname a)")
    case None
    show ?thesis
    proof (cases "required a")
      case True
      with None show ?thesis by auto
    next
      case False
      with Cons.prems have "p \<in> set contract" by auto
      with Cons obtain q where q: "q \<in> set contract" "required q" "map_of args (pname q) = None"
        "validateRequest contract args = Inl (MissingParameter (pname q))"
        by auto
      with None False show ?thesis by auto
    qed
  next
    case (Some v)
    with Cons.prems have pin: "p \<in> set contract" and ty: "hasType (ptype a) v" by auto
    with Cons obtain q where q: "q \<in> set contract" "required q" "map_of args (pname q) = None"
      "validateRequest contract args = Inl (MissingParameter (pname q))"
      by auto
    with Some ty show ?thesis by auto
  qed
qed

lemma validateRequest_default:
  "validateRequest contract args = Inr validated \<Longrightarrow> q \<in> set contract \<Longrightarrow> \<not> required q \<Longrightarrow>
   pdefault q = Some d \<Longrightarrow> map_of args (pname q) = None \<Longrightarrow> distinct (map pname contract) \<Longrightarrow>
     map_of validated (pname q) = Some d"
proof (induction contract arbitrary: validated)
  case Nil
  then show ?case by simp
next
  case (Cons a contract)
  show ?case
  proof (cases "a = q")
    case True
    with Cons.prems show ?thesis
      by (auto split: sum.splits)
  next
    case False
    with Cons.prems have qin: "q \<in> set contract" and ne: "pname a \<noteq> pname q" by auto
    from Cons.prems(1) obtain rest where rest: "validateRequest contract args = Inr rest"
      by (auto split: option.splits if_splits sum.splits)
    from Cons.IH [OF rest qin] Cons.prems have ih: "map_of rest (pname q) = Some d" by simp
    from Cons.prems(1) rest ne ih show ?thesis
      by (auto split: option.splits if_splits)
  qed
qed

text \<open>
  Claim C9: for a registered tool, a request that omits a required parameter ends in a
  dispatch error and never reaches the handler; when the arguments it does supply are
  well typed the error is \<open>MissingParameter\<close> for a required parameter that is
  absent. Arguments that agree on the declared parameters are treated alike, so
  undeclared keys change nothing. An optional parameter that is absent reaches the
  handler with its declared default.
\<close>

theorem C9_request_validation:
  assumes "map_of registry name = Some (contract, handle)"
  shows
   "(p \<in> set contract \<and> required p \<and> map_of args (pname p) = None
       \<longrightarrow> (\<exists>err. dispatch registry e name args = Inl err))
  \<and> (p \<in> set contract \<and> required p \<and> map_of args (pname p) = None
      \<and> (\<forall>q \<in> set contract. \<forall>v. map_of args (pname q) = Some v \<longrightarrow> hasType (ptype q) v)
       \<longrightarrow> (\<exists>q \<in> set contract. required q \<and> map_of args (pname q) = None
             \<and> dispatch registry e name args = Inl (MissingParameter (pname q))))
  \<and> ((\<forall>q \<in> set contract. map_of args' (pname q) = map_of args (pname q))
       \<longrightarrow> dispatch registry e name args' = dispatch registry e name args)
  \<and> (validateRequest contract args = Inr validated \<and> q \<in> set contract \<and> \<not> required q
      \<and> pdefault q = Some d \<and> map_of args (pname q) = None \<and> distinct (map pname contract)
       \<longrightarrow> map_of validated (pname q) = Some d
           \<and> dispatch registry e name args = Inr (handle e validated))"
proof (intro conjI impI)
  assume "p \<in> set contract \<and> required p \<and> map_of args (pname p) = None"
  then obtain err where "validateRequest contract args = Inl err"
    using validateRequest_missing_fails by blast
  with assms show "\<exists>err. dispatch registry e name args = Inl err"
    by (simp add: dispatch_def)
next
  assume "p \<in> set contract \<and> required p \<and> map_of args (pname p) = None
      \<and> (\<forall>q \<in> set contract. \<forall>v. map_of args (pname q) = Some v \<longrightarrow> hasType (ptype q) v)"
  then obtain q where "q \<in> set contract" "required q" "map_of args (pname q) = None"
      "validateRequest contract args = Inl (MissingParameter (pname q))"
    using validateRequest_missing_parameter [of p contract args] by blast
  with assms show "\<exists>q \<in> set contract. required q \<and> map_of args (pname q) = None
             \<and> dispatch registry e name args = Inl (MissingParameter (pname q))"
    by (auto simp: dispatch_def)
next
  assume "\<forall>q \<in> set contract. map_of args' (pname q) = map_of args (pname q)"
  then have "validateRequest contract args' = validateRequest contract args"
    by (rule validateRequest_declared_only)
  with assms show "dispatch registry e name args' = dispatch registry e name args"
    by (simp add: dispatch_def)
next
  assume h: "validateRequest contract args = Inr validated \<and> q \<in> set contract \<and> \<not> required q
      \<and> pdefault q = Some d \<and> map_of args (pname q) = None \<and> distinct (map pname contract)"
  then show "map_of validated (pname q) = Some d"
    using validateRequest_default [of contract args validated q d] by blast
  from h assms show "dispatch registry e name args = Inr (handle e validated)"
    by (simp add: dispatch_def)
qed

theorem C9_request_validation_witness:
  "dispatch createServer stubEnv ''save_svg'' [(''svg_code'', JString ''<svg/>'')] =
     Inl (MissingParameter ''filename'')
 \<and> dispatch createServer stubEnv ''save_svg''
       [(''svg_code'', JString ''<svg/>''), (''filename'', JString ''icon''),
        (''verbose'', JBool True)] =
     dispatch createServer stubEnv ''save_svg''
       [(''svg_code'', JString ''<svg/>''), (''filename'', JString ''icon'')]
 \<and> dispatch createServer stubEnv ''save_svg''
       [(''svg_code'', JString ''<svg/>''), (''filename'', JString ''icon'')] =
     Inr (save_svg stubEnv ''<svg/>'' ''icon'' True)"
proof -
  have reg: "map_of createServer ''save_svg'' =
      Some (save_svg_schema,
        \<lambda>e a. save_svg e (argString a ''svg_code'') (argString a ''filename'')
                 (argBoolean a ''optimize''))"
    by (simp add: createServer_def)
  note missing = C9_request_validation [OF reg, where p = "z_required ''filename'' TString"
      and args = "[(''svg_code'', JString ''<svg/>'')]" and e = stubEnv]
  note given = C9_request_validation [OF reg, where q = "z_optional ''optimize'' TBoolean (Some (JBool True))"
      and args = "[(''svg_code'', JString ''<svg/>''), (''filename'', JString ''icon'')]"
      and args' = "[(''svg_code'', JString ''<svg/>''), (''filename'', JString ''icon''),
        (''verbose'', JBool True)]"
      and validated = "[(''svg_code'', JString ''<svg/>''), (''filename'', JString ''icon''),
        (''optimize'', JBool True)]"
      and d = "JBool True" and e = stubEnv]
  from missing given show ?thesis
    by (simp add: save_svg_schema_def z_required_def z_optional_def argString_def
        argBoolean_def)
qed

end
